theory Spec2Isabelle
  imports Main "HOL-Library.Word"
begin

section \<open>Errors\<close>

text \<open>
  Go errors are values. The handlers compare a store error with
  \<^verbatim>\<open>store.ErrorResourceNotFound(type, namespace, name)\<close> by its message, which names the
  type, the namespace and the name; the constructor below carries the same three strings, so
  equality of messages is equality of values.
\<close>

datatype error =
    ErrorResourceNotFound string string string
  | ErrorResourceAlreadyExists string string string
  | ErrorResourceConflict string string string
  | TypeMismatch
  | UnmarshalTypeError string
  | SyntaxError
  | MarshalError string
  | OtherError string

section \<open>Network RBAC configurer (package listeners)\<close>

subsection \<open>Policy resources\<close>

text \<open>
  A selector is a Go \<^verbatim>\<open>map[string]string\<close>; reading a missing key gives the empty string.
\<close>

type_synonym Selector = "string \<rightharpoonup> string"

definition Match :: "Selector \<Rightarrow> string \<Rightarrow> string" where
  "Match source k = (case source k of None \<Rightarrow> [] | Some v \<Rightarrow> v)"

record TrafficPermission =
  Sources :: "Selector list"
  Destinations :: "Selector list"

record ResourceMeta =
  GetNamespace :: string
  GetName :: string
  GetMesh :: string
  GetVersion :: nat

record TrafficPermissionResource =
  Meta :: ResourceMeta
  Spec :: TrafficPermission

text \<open>
  Modelled from the spec: the wildcard tag value \<^verbatim>\<open>v1alpha1.MatchAllTag\<close>, a constant of the
  API package that is not among the sources; the spec writes the wildcard as \<^verbatim>\<open>*\<close>.
\<close>

definition MatchAllTag :: string where
  "MatchAllTag = ''*''"

subsection \<open>Generated proxy configuration\<close>

datatype StringMatcher =
    StringMatcher_Exact string
  | StringMatcher_Prefix string
  | StringMatcher_Suffix string
  | StringMatcher_Regex string

datatype Principal =
    Principal_Any bool
  | Principal_Authenticated StringMatcher
  | Principal_Unset

datatype Permission =
    Permission_Any bool
  | Permission_DestinationPort nat

record Policy =
  Permissions :: "Permission list"
  Principals :: "Principal list"

datatype RBAC_Action = RBAC_ALLOW | RBAC_DENY

record RBAC_Rules =
  Action :: RBAC_Action
  Policies :: "string \<rightharpoonup> Policy"

record RBAC =
  Rules :: RBAC_Rules
  StatPrefix :: string

text \<open>
  \<^verbatim>\<open>ptypes.MarshalAny\<close> wraps the wire encoding of a message; the encoder belongs to the
  protobuf library and is a parameter \<open>MarshalAny\<close> of the functions below, with its error
  return kept.
\<close>

record Any =
  TypeUrl :: string
  Value :: "8 word list"

datatype ConfigType =
    Filter_Config string
  | Filter_TypedConfig Any

record Filter =
  Filter_Name :: string
  Filter_ConfigType :: ConfigType

record FilterChain =
  Filters :: "Filter list"

record Listener =
  Listener_Name :: string
  FilterChains :: "FilterChain list"

text \<open>
  The name of Envoy's network RBAC filter, \<^verbatim>\<open>envoy_wellknown.RoleBasedAccessControl\<close> of
  go-control-plane.
\<close>

definition RoleBasedAccessControl :: string where
  "RoleBasedAccessControl = ''envoy.filters.network.rbac''"

text \<open>
  Modelled from the spec: \<^verbatim>\<open>util_xds.SanitizeMetric\<close>, a helper of this repository that is
  not among the sources. The spec has it replace protocol-unsafe characters of the listener
  name, and names colons and dots; its example writes an underscore for each.
\<close>

definition SanitizeMetric :: "string \<Rightarrow> string" where
  "SanitizeMetric metric =
     map (\<lambda>c. if c = CHR '':'' \<or> c = CHR ''.'' then CHR ''_'' else c) metric"

subsection \<open>createPolicy\<close>

text \<open>
  The body of the loop over \<^verbatim>\<open>permission.Spec.Sources\<close>: one principal for one source.
\<close>

definition createPrincipal :: "TrafficPermissionResource \<Rightarrow> Selector \<Rightarrow> Principal" where
  "createPrincipal permission source =
     (let service = Match source ''service'' in
      if service = MatchAllTag then Principal_Any True
      else Principal_Authenticated
             (StringMatcher_Exact (''spiffe://'' @ GetMesh (Meta permission) @ ''/'' @ service)))"

fun principals_loop ::
  "TrafficPermissionResource \<Rightarrow> Principal list \<Rightarrow> Selector list \<Rightarrow> Principal list" where
  "principals_loop permission principals [] = principals"
| "principals_loop permission principals (source # rest) =
     principals_loop permission (principals @ [createPrincipal permission source]) rest"

definition createPolicy :: "TrafficPermissionResource \<Rightarrow> Policy" where
  "createPolicy permission =
     \<lparr>Permissions = [Permission_Any True],
      Principals = principals_loop permission [] (Sources (Spec permission))\<rparr>"

subsection \<open>createRbacRule, createRbacFilter, Configure\<close>

fun policies_loop ::
  "(string \<rightharpoonup> Policy) \<Rightarrow> TrafficPermissionResource list \<Rightarrow> (string \<rightharpoonup> Policy)" where
  "policies_loop policies [] = policies"
| "policies_loop policies (permission # rest) =
     policies_loop (policies(GetName (Meta permission) \<mapsto> createPolicy permission)) rest"

definition createRbacRule ::
  "(string \<Rightarrow> string) \<Rightarrow> string \<Rightarrow> TrafficPermissionResource list \<Rightarrow> RBAC" where
  "createRbacRule sanitize listenerName permissions =
     \<lparr>Rules = \<lparr>Action = RBAC_ALLOW, Policies = policies_loop Map.empty permissions\<rparr>,
      StatPrefix = sanitize listenerName @ ''.''\<rparr>"

definition createRbacFilter ::
  "(string \<Rightarrow> string) \<Rightarrow> (RBAC \<Rightarrow> error + Any) \<Rightarrow> string \<Rightarrow>
   TrafficPermissionResource list \<Rightarrow> error + Filter" where
  "createRbacFilter sanitize MarshalAny listenerName permissions =
     (case MarshalAny (createRbacRule sanitize listenerName permissions) of
        Inl err \<Rightarrow> Inl err
      | Inr rbacMarshalled \<Rightarrow>
          Inr \<lparr>Filter_Name = RoleBasedAccessControl,
               Filter_ConfigType = Filter_TypedConfig rbacMarshalled\<rparr>)"

text \<open>
  \<^verbatim>\<open>Configure\<close> changes the listener in place and may return early with an error, so the
  model returns both the error (if any) and the listener as the loop left it. The permission
  list and its items are pointers in the source; they are taken to be set, as the callers
  pass them (a nil list or item would panic in \<^verbatim>\<open>createRbacRule\<close>).
\<close>

fun Configure_loop ::
  "(string \<Rightarrow> string) \<Rightarrow> (RBAC \<Rightarrow> error + Any) \<Rightarrow> string \<Rightarrow>
   TrafficPermissionResource list \<Rightarrow> FilterChain list \<Rightarrow> error option \<times> FilterChain list" where
  "Configure_loop sanitize MarshalAny name permissions [] = (None, [])"
| "Configure_loop sanitize MarshalAny name permissions (chain # rest) =
     (case createRbacFilter sanitize MarshalAny name permissions of
        Inl err \<Rightarrow> (Some err, chain # rest)
      | Inr rbacFilter \<Rightarrow>
          (case Configure_loop sanitize MarshalAny name permissions rest of
             (err, rest') \<Rightarrow> (err, chain\<lparr>Filters := rbacFilter # Filters chain\<rparr> # rest')))"

definition Configure ::
  "(string \<Rightarrow> string) \<Rightarrow> (RBAC \<Rightarrow> error + Any) \<Rightarrow> TrafficPermissionResource list \<Rightarrow>
   Listener \<Rightarrow> error option \<times> Listener" where
  "Configure sanitize MarshalAny permissions l =
     (case Configure_loop sanitize MarshalAny (Listener_Name l) permissions (FilterChains l) of
        (err, filterChains) \<Rightarrow> (err, l\<lparr>FilterChains := filterChains\<rparr>))"

section \<open>HTTP layer over the Resource Store (package api_server)\<close>

subsection \<open>Resources\<close>

datatype json =
    JNull
  | JBool bool
  | JNumber int
  | JString string
  | JArray "json list"
  | JObject "(string \<times> json) list"

text \<open>
  A \<^verbatim>\<open>model.ResourceSpec\<close> is a protobuf message: its dynamic shape (the message type) and its
  content. A \<^verbatim>\<open>model.Resource\<close> is read through its getters.
\<close>

record ResourceSpec =
  Shape :: string
  Content :: json

record Resource =
  GetType :: string
  GetMeta :: ResourceMeta
  GetSpec :: ResourceSpec

record ResourceList =
  GetItemType :: string
  GetItems :: "Resource list"

text \<open>
  Modelled from the spec: \<^verbatim>\<open>SetSpec\<close> of the Resource Model, whose implementations are not
  among the sources. The spec has it reject a spec whose dynamic shape does not match the
  resource's declared type, failing with a TypeMismatch error; a rejected call leaves the
  resource as it was.
\<close>

definition SetSpec :: "Resource \<Rightarrow> ResourceSpec \<Rightarrow> error + Resource" where
  "SetSpec res spec =
     (if Shape spec = Shape (GetSpec res) then Inr (res\<lparr>GetSpec := spec\<rparr>) else Inl TypeMismatch)"

subsection \<open>The store interface\<close>

text \<open>
  \<^verbatim>\<open>store.ResourceStore\<close> is an interface; the handlers are written against any
  implementation. An implementation is a record of operations over its own state \<open>'s\<close>;
  a failing operation leaves the state as it was. The options \<^verbatim>\<open>GetByName\<close>,
  \<^verbatim>\<open>CreateByName\<close>, \<^verbatim>\<open>DeleteByName\<close> carry a namespace and a name, \<^verbatim>\<open>ListByNamespace\<close>
  a namespace. The context argument (cancellation, deadline) is left out.
\<close>

record 's ResourceStore =
  Create :: "'s \<Rightarrow> Resource \<Rightarrow> string \<Rightarrow> string \<Rightarrow> error + 's"
  Get :: "'s \<Rightarrow> Resource \<Rightarrow> string \<Rightarrow> string \<Rightarrow> error + Resource"
  Update :: "'s \<Rightarrow> Resource \<Rightarrow> error + 's"
  Delete :: "'s \<Rightarrow> Resource \<Rightarrow> string \<Rightarrow> string \<Rightarrow> error + 's"
  ListByNamespace :: "'s \<Rightarrow> ResourceList \<Rightarrow> string \<Rightarrow> error + ResourceList"

subsection \<open>Requests and responses\<close>

definition namespace :: string where
  "namespace = ''default''"

record ResourceWsDefinition =
  Def_Name :: string
  Path :: string
  ResourceFactory :: Resource
  ResourceListFactory :: ResourceList

record 's resourceWs = ResourceWsDefinition +
  resourceStore :: "'s ResourceStore"
  readOnly :: bool

record ResourceReqResp =
  Type :: string
  Name :: string
  Mesh :: string
  ReqResp_Spec :: ResourceSpec

text \<open>
  A request carries its path parameters and its body. \<^verbatim>\<open>PathParameter\<close> gives the empty
  string for a parameter the route does not bind. The body is the JSON document sent, or
  \<open>None\<close> when it cannot be read as one JSON value, in which case \<^verbatim>\<open>ReadEntity\<close> fails before
  it reaches \<^verbatim>\<open>UnmarshalJSON\<close>.
\<close>

record Request =
  PathParameters :: "string \<rightharpoonup> string"
  Body :: "json option"

definition PathParameter :: "Request \<Rightarrow> string \<Rightarrow> string" where
  "PathParameter request k = (case PathParameters request k of None \<Rightarrow> [] | Some v \<Rightarrow> v)"

text \<open>
  A response is the sequence of writes the handler makes on it, in order. Log calls are left
  out. Whether \<^verbatim>\<open>WriteAsJson\<close> fails depends on the entity and on the JSON marshaller, a
  parameter \<open>jsonErr\<close> of the handlers that call it.
\<close>

datatype Entity =
    Entity_Resource ResourceReqResp
  | Entity_List "ResourceReqResp list"

datatype Write =
    WriteErrorString nat string
  | WriteHeader nat
  | WriteAsJson Entity

text \<open>
  The status a client sees is that of the first write; a handler that writes nothing, or
  writes an entity first, answers 200.
\<close>

fun status :: "Write list \<Rightarrow> nat" where
  "status [] = 200"
| "status (WriteErrorString httpStatus msg # ws) = httpStatus"
| "status (WriteHeader httpStatus # ws) = httpStatus"
| "status (WriteAsJson e # ws) = 200"

definition writeError :: "nat \<Rightarrow> string \<Rightarrow> Write list" where
  "writeError httpStatus msg = [WriteErrorString httpStatus msg]"

subsection \<open>ResourceReqResp.UnmarshalJSON\<close>

text \<open>
  Go's \<^verbatim>\<open>json.Unmarshal\<close> into a \<^verbatim>\<open>map[string]string\<close>, as encoding/json documents it: a
  member whose value is a JSON string is stored; a JSON null has no effect on the element and
  is no error; any other value is not appropriate for a string, the member is skipped, the
  rest is decoded, and the earliest such error is returned. In each case the key is entered
  in the map, with the empty string when nothing was stored. A later duplicate of a key
  replaces the earlier one. A top-level null leaves the map empty without error; any other
  top-level value that is not an object is a type error.
\<close>

fun unmarshal_members ::
  "(string \<times> json) list \<Rightarrow> (string \<rightharpoonup> string) \<Rightarrow> error option \<Rightarrow>
   error option \<times> (string \<rightharpoonup> string)" where
  "unmarshal_members [] vals err = (err, vals)"
| "unmarshal_members ((k, JString s) # rest) vals err =
     unmarshal_members rest (vals(k \<mapsto> s)) err"
| "unmarshal_members ((k, JNull) # rest) vals err =
     unmarshal_members rest (vals(k \<mapsto> [])) err"
| "unmarshal_members ((k, v) # rest) vals err =
     unmarshal_members rest (vals(k \<mapsto> []))
       (case err of None \<Rightarrow> Some (UnmarshalTypeError k) | Some e \<Rightarrow> Some e)"

fun json_Unmarshal :: "json \<Rightarrow> error option \<times> (string \<rightharpoonup> string)" where
  "json_Unmarshal (JObject members) = unmarshal_members members Map.empty None"
| "json_Unmarshal JNull = (None, Map.empty)"
| "json_Unmarshal v = (Some (UnmarshalTypeError []), Map.empty)"

definition lookup :: "(string \<rightharpoonup> string) \<Rightarrow> string \<Rightarrow> string" where
  "lookup vals k = (case vals k of None \<Rightarrow> [] | Some v \<Rightarrow> v)"

text \<open>
  \<^verbatim>\<open>jsonpb\<close> decodes the body into the spec message in place; what it accepts depends on the
  message type, so it is a parameter \<open>jsonpb\<close> giving the error (if any) and the message as
  decoding left it. \<^verbatim>\<open>UnmarshalJSON\<close> has a pointer receiver: the model returns the error
  and the receiver as the call left it.
\<close>

definition UnmarshalJSON ::
  "(json \<Rightarrow> ResourceSpec \<Rightarrow> error option \<times> ResourceSpec) \<Rightarrow> json \<Rightarrow> ResourceReqResp \<Rightarrow>
   error option \<times> ResourceReqResp" where
  "UnmarshalJSON jsonpb jsonBytes r =
     (case jsonpb jsonBytes (ReqResp_Spec r) of
        (Some err, spec) \<Rightarrow> (Some err, r\<lparr>ReqResp_Spec := spec\<rparr>)
      | (None, spec) \<Rightarrow>
          (case json_Unmarshal jsonBytes of
             (Some err, vals) \<Rightarrow> (Some err, r\<lparr>ReqResp_Spec := spec\<rparr>)
           | (None, vals) \<Rightarrow>
               (None, r\<lparr>ReqResp_Spec := spec,
                        Name := lookup vals ''name'',
                        Type := lookup vals ''type'',
                        Mesh := lookup vals ''mesh''\<rparr>)))"

definition ReadEntity ::
  "(json \<Rightarrow> ResourceSpec \<Rightarrow> error option \<times> ResourceSpec) \<Rightarrow> Request \<Rightarrow> ResourceReqResp \<Rightarrow>
   error option \<times> ResourceReqResp" where
  "ReadEntity jsonpb request entity =
     (case Body request of
        None \<Rightarrow> (Some SyntaxError, entity)
      | Some jsonBytes \<Rightarrow> UnmarshalJSON jsonpb jsonBytes entity)"

subsection \<open>Handlers\<close>

definition toReqResp :: "string \<Rightarrow> Resource \<Rightarrow> ResourceReqResp" where
  "toReqResp meshName item =
     \<lparr>Type = GetType item, Name = GetName (GetMeta item), Mesh = meshName,
      ReqResp_Spec = GetSpec item\<rparr>"

definition findResource ::
  "(Entity \<Rightarrow> error option) \<Rightarrow> 's resourceWs \<Rightarrow> Request \<Rightarrow> 's \<Rightarrow> Write list" where
  "findResource jsonErr r request st =
     (let name = PathParameter request ''name'';
          meshName = PathParameter request ''mesh'';
          resource = ResourceFactory r
      in case Get (resourceStore r) st resource namespace name of
           Inl err \<Rightarrow>
             if err = ErrorResourceNotFound (GetType resource) namespace name
             then writeError 404 []
             else writeError 500 ''Could not retrieve a resource''
         | Inr found \<Rightarrow>
             (let res = \<lparr>Type = GetType found, Name = name, Mesh = meshName,
                         ReqResp_Spec = GetSpec found\<rparr>
              in case jsonErr (Entity_Resource res) of
                   None \<Rightarrow> [WriteAsJson (Entity_Resource res)]
                 | Some err \<Rightarrow> []))"

definition listResources ::
  "(Entity \<Rightarrow> error option) \<Rightarrow> 's resourceWs \<Rightarrow> Request \<Rightarrow> 's \<Rightarrow> Write list" where
  "listResources jsonErr r request st =
     (let meshName = PathParameter request ''mesh'';
          list = ResourceListFactory r
      in case ListByNamespace (resourceStore r) st list namespace of
           Inl err \<Rightarrow> writeError 500 ''Could not list a resource''
         | Inr filled \<Rightarrow>
             (let items = map (toReqResp meshName) (GetItems filled);
                  specList = Entity_List items
              in case jsonErr specList of
                   None \<Rightarrow> [WriteAsJson specList]
                 | Some err \<Rightarrow> writeError 500 ''Could not list a resource''))"

definition validateResourceRequest ::
  "'s resourceWs \<Rightarrow> Request \<Rightarrow> ResourceReqResp \<Rightarrow> string option" where
  "validateResourceRequest r request resourceReq =
     (let name = PathParameter request ''name'';
          meshName = PathParameter request ''mesh''
      in if name \<noteq> Name resourceReq
         then Some ''Name from the URL has to be the same as in body''
         else if GetType (ResourceFactory r) \<noteq> Type resourceReq
         then Some ''Type from the URL has to be the same as in body''
         else if meshName \<noteq> Mesh resourceReq
         then Some ''Mesh from the URL has to be the same as in body''
         else None)"

definition createResource ::
  "'s resourceWs \<Rightarrow> 's \<Rightarrow> string \<Rightarrow> ResourceSpec \<Rightarrow> 's \<times> Write list" where
  "createResource r st name spec =
     (let res = ResourceFactory r;
          res = (case SetSpec res spec of Inl err \<Rightarrow> res | Inr res' \<Rightarrow> res')
      in case Create (resourceStore r) st res namespace name of
           Inl err \<Rightarrow> (st, writeError 500 ''Could not create a resource'')
         | Inr st' \<Rightarrow> (st', [WriteHeader 201]))"

definition updateResource ::
  "'s resourceWs \<Rightarrow> 's \<Rightarrow> Resource \<Rightarrow> ResourceSpec \<Rightarrow> 's \<times> Write list" where
  "updateResource r st res spec =
     (let res = (case SetSpec res spec of Inl err \<Rightarrow> res | Inr res' \<Rightarrow> res')
      in case Update (resourceStore r) st res of
           Inl err \<Rightarrow> (st, writeError 500 ''Could not update a resource'')
         | Inr st' \<Rightarrow> (st', [WriteHeader 200]))"

definition createOrUpdateResource ::
  "(json \<Rightarrow> ResourceSpec \<Rightarrow> error option \<times> ResourceSpec) \<Rightarrow> 's resourceWs \<Rightarrow> Request \<Rightarrow> 's \<Rightarrow>
   's \<times> Write list" where
  "createOrUpdateResource jsonpb r request st =
     (let name = PathParameter request ''name'';
          resourceRes = \<lparr>Type = [], Name = [], Mesh = [],
                         ReqResp_Spec = GetSpec (ResourceFactory r)\<rparr>;
          (err, resourceRes) = ReadEntity jsonpb request resourceRes;
          w = (case err of
                 Some e \<Rightarrow> writeError 400 ''Could not process the resource''
               | None \<Rightarrow> [])
      in case validateResourceRequest r request resourceRes of
           Some msg \<Rightarrow> (st, w @ writeError 400 msg)
         | None \<Rightarrow>
             (let resource = ResourceFactory r
              in case Get (resourceStore r) st resource namespace name of
                   Inl err \<Rightarrow>
                     if err = ErrorResourceNotFound (GetType resource) namespace name
                     then (case createResource r st name (ReqResp_Spec resourceRes) of
                             (st', w') \<Rightarrow> (st', w @ w'))
                     else (st, w @ writeError 500 ''Could not create a resource'')
                 | Inr found \<Rightarrow>
                     (case updateResource r st found (ReqResp_Spec resourceRes) of
                        (st', w') \<Rightarrow> (st', w @ w'))))"

definition deleteResource :: "'s resourceWs \<Rightarrow> Request \<Rightarrow> 's \<Rightarrow> 's \<times> Write list" where
  "deleteResource r request st =
     (let name = PathParameter request ''name'';
          resource = ResourceFactory r
      in case Delete (resourceStore r) st resource namespace name of
           Inl err \<Rightarrow> (st, writeError 500 ''Could not delete a resource'')
         | Inr st' \<Rightarrow> (st', []))"

subsection \<open>An in-memory store\<close>

text \<open>
  Modelled from the spec: a Resource Store, none of whose implementations is among the
  sources. The spec keys a resource by type, mesh and name, the handlers here pass the key
  they call namespace in the place of the mesh. Create fails with AlreadyExists when the key
  is present and assigns version 1; Get and Delete fail with NotFound when it is absent;
  Update needs the stored version and increments it, and fails with Conflict otherwise; List
  gives all resources of the list's type under the key.
\<close>

definition has_key :: "string \<Rightarrow> string \<Rightarrow> string \<Rightarrow> Resource \<Rightarrow> bool" where
  "has_key t ns name res \<longleftrightarrow>
     GetType res = t \<and> GetNamespace (GetMeta res) = ns \<and> GetName (GetMeta res) = name"

definition memCreate :: "Resource list \<Rightarrow> Resource \<Rightarrow> string \<Rightarrow> string \<Rightarrow> error + Resource list" where
  "memCreate st res ns name =
     (case find (has_key (GetType res) ns name) st of
        Some stored \<Rightarrow> Inl (ErrorResourceAlreadyExists (GetType res) ns name)
      | None \<Rightarrow>
          Inr (st @ [res\<lparr>GetMeta := (GetMeta res)\<lparr>GetNamespace := ns, GetName := name,
                                                 GetVersion := 1\<rparr>\<rparr>]))"

definition memGet :: "Resource list \<Rightarrow> Resource \<Rightarrow> string \<Rightarrow> string \<Rightarrow> error + Resource" where
  "memGet st res ns name =
     (case find (has_key (GetType res) ns name) st of
        Some stored \<Rightarrow> Inr stored
      | None \<Rightarrow> Inl (ErrorResourceNotFound (GetType res) ns name))"

definition memUpdate :: "Resource list \<Rightarrow> Resource \<Rightarrow> error + Resource list" where
  "memUpdate st res =
     (let t = GetType res; ns = GetNamespace (GetMeta res); name = GetName (GetMeta res)
      in case find (has_key t ns name) st of
           None \<Rightarrow> Inl (ErrorResourceNotFound t ns name)
         | Some stored \<Rightarrow>
             if GetVersion (GetMeta stored) \<noteq> GetVersion (GetMeta res)
             then Inl (ErrorResourceConflict t ns name)
             else Inr (map (\<lambda>x. if has_key t ns name x
                                 then res\<lparr>GetMeta := (GetMeta res)\<lparr>GetVersion :=
                                             Suc (GetVersion (GetMeta res))\<rparr>\<rparr>
                                 else x) st))"

definition memDelete :: "Resource list \<Rightarrow> Resource \<Rightarrow> string \<Rightarrow> string \<Rightarrow> error + Resource list" where
  "memDelete st res ns name =
     (case find (has_key (GetType res) ns name) st of
        None \<Rightarrow> Inl (ErrorResourceNotFound (GetType res) ns name)
      | Some stored \<Rightarrow> Inr (filter (\<lambda>x. \<not> has_key (GetType res) ns name x) st))"

definition memList :: "Resource list \<Rightarrow> ResourceList \<Rightarrow> string \<Rightarrow> error + ResourceList" where
  "memList st list ns =
     Inr (list\<lparr>GetItems :=
            filter (\<lambda>x. GetType x = GetItemType list \<and> GetNamespace (GetMeta x) = ns) st\<rparr>)"

definition memStore :: "Resource list ResourceStore" where
  "memStore = \<lparr>Create = memCreate, Get = memGet, Update = memUpdate, Delete = memDelete,
               ListByNamespace = memList\<rparr>"

subsection \<open>Example inputs\<close>

text \<open>
  Concrete inputs on which the properties below are evaluated: a protobuf encoder that always
  succeeds, a \<^verbatim>\<open>jsonpb\<close> decoder that accepts every document, a web service definition over
  the in-memory store, and the requests, permissions and listener of the spec's scenarios.
\<close>

definition exMarshalAny :: "RBAC \<Rightarrow> error + Any" where
  "exMarshalAny rule =
     Inr \<lparr>TypeUrl = ''type.googleapis.com/envoy.config.filter.network.rbac.v2.RBAC'',
          Value = map (\<lambda>c. of_nat (of_char c)) (StatPrefix rule)\<rparr>"

definition exPermission :: TrafficPermissionResource where
  "exPermission =
     \<lparr>Meta = \<lparr>GetNamespace = ''default'', GetName = ''allow-web'', GetMesh = ''m1'',
              GetVersion = 1\<rparr>,
      Spec = \<lparr>Sources = [[''service'' \<mapsto> ''web''], [''service'' \<mapsto> ''*'']],
              Destinations = [[''service'' \<mapsto> ''backend'']]\<rparr>\<rparr>"

definition allowAll :: TrafficPermissionResource where
  "allowAll =
     \<lparr>Meta = \<lparr>GetNamespace = ''default'', GetName = ''allow-all'', GetMesh = ''default'',
              GetVersion = 1\<rparr>,
      Spec = \<lparr>Sources = [[''service'' \<mapsto> ''*'']], Destinations = [[''service'' \<mapsto> ''*'']]\<rparr>\<rparr>"

definition exListener :: Listener where
  "exListener =
     \<lparr>Listener_Name = ''inbound:127.0.0.1:21011'',
      FilterChains =
        [\<lparr>Filters = [\<lparr>Filter_Name = ''F1'', Filter_ConfigType = Filter_Config []\<rparr>,
                     \<lparr>Filter_Name = ''F2'', Filter_ConfigType = Filter_Config []\<rparr>]\<rparr>]\<rparr>"

definition exJsonpb :: "json \<Rightarrow> ResourceSpec \<Rightarrow> error option \<times> ResourceSpec" where
  "exJsonpb jsonBytes spec = (None, spec\<lparr>Content := jsonBytes\<rparr>)"

definition exFactory :: "string \<Rightarrow> Resource" where
  "exFactory t =
     \<lparr>GetType = t,
      GetMeta = \<lparr>GetNamespace = [], GetName = [], GetMesh = [], GetVersion = 0\<rparr>,
      GetSpec = \<lparr>Shape = t, Content = JObject []\<rparr>\<rparr>"

definition exWs :: "string \<Rightarrow> Resource list resourceWs" where
  "exWs t =
     \<lparr>Def_Name = t, Path = ''traffic-permissions'',
      ResourceFactory = exFactory t,
      ResourceListFactory = \<lparr>GetItemType = t, GetItems = []\<rparr>,
      resourceStore = memStore, readOnly = False\<rparr>"

definition exBody :: "string \<Rightarrow> json" where
  "exBody meshName =
     JObject [(''type'', JString ''TrafficPermission''), (''name'', JString ''tp1''),
              (''mesh'', JString meshName)]"

definition exRequest :: "string \<Rightarrow> string \<Rightarrow> json option \<Rightarrow> Request" where
  "exRequest meshName name body =
     \<lparr>PathParameters = [''mesh'' \<mapsto> meshName, ''name'' \<mapsto> name], Body = body\<rparr>"

definition exStored :: "string \<Rightarrow> Resource" where
  "exStored meshName =
     \<lparr>GetType = ''TrafficPermission'',
      GetMeta = \<lparr>GetNamespace = ''default'', GetName = ''tp1'', GetMesh = [], GetVersion = 1\<rparr>,
      GetSpec = \<lparr>Shape = ''TrafficPermission'', Content = exBody meshName\<rparr>\<rparr>"

definition exUntyped :: Resource where
  "exUntyped =
     \<lparr>GetType = [],
      GetMeta = \<lparr>GetNamespace = ''default'', GetName = [], GetMesh = [], GetVersion = 1\<rparr>,
      GetSpec = \<lparr>Shape = [], Content = JObject []\<rparr>\<rparr>"

section \<open>Properties of the Network RBAC configurer\<close>

subsection \<open>Loops as list operations\<close>

lemma principals_loop_map:
  "principals_loop permission principals sources =
     principals @ map (createPrincipal permission) sources"
  by (induction sources arbitrary: principals) simp_all

lemma policies_loop_eq:
  "policies_loop m items =
     m ++ map_of (rev (map (\<lambda>p. (GetName (Meta p), createPolicy p)) items))"
  by (induction items arbitrary: m) (simp_all add: map_add_upd_left)

lemma policies_loop_member:
  "p \<in> set items \<Longrightarrow>
   \<exists>q\<in>set items. GetName (Meta q) = GetName (Meta p) \<and>
     policies_loop m items (GetName (Meta p)) = Some (createPolicy q)"
proof (induction items arbitrary: m rule: rev_induct)
  case Nil
  then show ?case by simp
next
  case (snoc x xs)
  show ?case
  proof (cases "GetName (Meta x) = GetName (Meta p)")
    case True
    then show ?thesis by (auto simp: policies_loop_eq)
  next
    case False
    with snoc.prems have "p \<in> set xs" by auto
    from snoc.IH[OF this, of m] False show ?thesis
      by (auto simp: policies_loop_eq)
  qed
qed

lemma policies_loop_distinct:
  "distinct (map (\<lambda>p. GetName (Meta p)) items) \<Longrightarrow> p \<in> set items \<Longrightarrow>
   policies_loop m items (GetName (Meta p)) = Some (createPolicy p)"
proof (induction items arbitrary: m rule: rev_induct)
  case Nil
  then show ?case by simp
next
  case (snoc x xs)
  show ?case
  proof (cases "p = x")
    case True
    then show ?thesis by (simp add: policies_loop_eq)
  next
    case False
    with snoc.prems have px: "p \<in> set xs" by auto
    with snoc.prems have "GetName (Meta x) \<noteq> GetName (Meta p)" by force
    moreover from snoc.prems have "distinct (map (\<lambda>p. GetName (Meta p)) xs)" by simp
    ultimately show ?thesis using snoc.IH[OF _ px, of m] by (simp add: policies_loop_eq)
  qed
qed

lemma Configure_loop_ok:
  "createRbacFilter sanitize MarshalAny name permissions = Inr f \<Longrightarrow>
   Configure_loop sanitize MarshalAny name permissions cs =
     (None, map (\<lambda>chain. chain\<lparr>Filters := f # Filters chain\<rparr>) cs)"
  by (induction cs) simp_all

lemma Configure_ok:
  assumes "MarshalAny (createRbacRule sanitize (Listener_Name l) permissions) = Inr a"
  shows "Configure sanitize MarshalAny permissions l =
     (None, l\<lparr>FilterChains :=
        map (\<lambda>chain. chain\<lparr>Filters :=
               \<lparr>Filter_Name = RoleBasedAccessControl, Filter_ConfigType = Filter_TypedConfig a\<rparr>
                 # Filters chain\<rparr>) (FilterChains l)\<rparr>)"
proof -
  have "createRbacFilter sanitize MarshalAny (Listener_Name l) permissions =
      Inr \<lparr>Filter_Name = RoleBasedAccessControl, Filter_ConfigType = Filter_TypedConfig a\<rparr>"
    using assms by (simp add: createRbacFilter_def)
  then show ?thesis by (simp add: Configure_def Configure_loop_ok)
qed

lemma Configure_loop_err:
  "createRbacFilter sanitize MarshalAny name permissions = Inl e \<Longrightarrow>
   Configure_loop sanitize MarshalAny name permissions cs =
     (if cs = [] then None else Some e, cs)"
  by (cases cs) simp_all

lemma Configure_success_first:
  assumes "fst (Configure sanitize MarshalAny permissions l) = None"
    and "chain \<in> set (FilterChains (snd (Configure sanitize MarshalAny permissions l)))"
  shows "\<exists>a rest. Filters chain =
      \<lparr>Filter_Name = RoleBasedAccessControl, Filter_ConfigType = Filter_TypedConfig a\<rparr> # rest"
proof (cases "MarshalAny (createRbacRule sanitize (Listener_Name l) permissions)")
  case (Inl e)
  then have "createRbacFilter sanitize MarshalAny (Listener_Name l) permissions = Inl e"
    by (simp add: createRbacFilter_def)
  from Configure_loop_err[OF this, of "FilterChains l"] assms show ?thesis
    by (simp add: Configure_def split: if_splits)
next
  case (Inr a)
  from Configure_ok[where MarshalAny=MarshalAny and sanitize=sanitize and l=l
      and permissions=permissions and a=a, OF Inr] assms(2)
  show ?thesis by auto
qed

subsection \<open>Policies\<close>

text \<open>
  Claim C3. For every permission, the generated policy has exactly one permission rule,
  which matches any destination, and exactly one principal per source selector, in the order
  of the selectors: the principal of a selector whose \<^verbatim>\<open>service\<close> value is the wildcard
  matches any identity, every other one matches exactly the string
  \<^verbatim>\<open>spiffe://<mesh>/<service>\<close> with the mesh of the permission. The rule set holds, under the
  name of every permission of the list, the policy generated from a permission of that name,
  which is the permission itself when the names of the list are distinct.
\<close>

theorem createPolicy_one_principal_per_source:
  "Permissions (createPolicy permission) = [Permission_Any True] \<and>
   length (Principals (createPolicy permission)) = length (Sources (Spec permission)) \<and>
   (\<forall>i < length (Sources (Spec permission)).
      Principals (createPolicy permission) ! i =
        (if Match (Sources (Spec permission) ! i) ''service'' = MatchAllTag
         then Principal_Any True
         else Principal_Authenticated (StringMatcher_Exact
                (''spiffe://'' @ GetMesh (Meta permission) @ ''/'' @
                 Match (Sources (Spec permission) ! i) ''service'')))) \<and>
   (permission \<in> set permissions \<longrightarrow>
      (\<exists>q\<in>set permissions. GetName (Meta q) = GetName (Meta permission) \<and>
         Policies (Rules (createRbacRule sanitize listenerName permissions))
           (GetName (Meta permission)) = Some (createPolicy q)) \<and>
      (distinct (map (\<lambda>p. GetName (Meta p)) permissions) \<longrightarrow>
         Policies (Rules (createRbacRule sanitize listenerName permissions))
           (GetName (Meta permission)) = Some (createPolicy permission)))"
proof -
  have shape: "Principals (createPolicy permission) =
      map (createPrincipal permission) (Sources (Spec permission))"
    by (simp add: createPolicy_def principals_loop_map)
  have one: "Permissions (createPolicy permission) = [Permission_Any True]"
    by (simp add: createPolicy_def)
  have len: "length (Principals (createPolicy permission)) = length (Sources (Spec permission))"
    by (simp add: shape)
  have nth: "\<forall>i < length (Sources (Spec permission)).
      Principals (createPolicy permission) ! i =
        (if Match (Sources (Spec permission) ! i) ''service'' = MatchAllTag
         then Principal_Any True
         else Principal_Authenticated (StringMatcher_Exact
                (''spiffe://'' @ GetMesh (Meta permission) @ ''/'' @
                 Match (Sources (Spec permission) ! i) ''service'')))"
    by (simp add: shape createPrincipal_def Let_def)
  have keyed: "permission \<in> set permissions \<longrightarrow>
      (\<exists>q\<in>set permissions. GetName (Meta q) = GetName (Meta permission) \<and>
         Policies (Rules (createRbacRule sanitize listenerName permissions))
           (GetName (Meta permission)) = Some (createPolicy q)) \<and>
      (distinct (map (\<lambda>p. GetName (Meta p)) permissions) \<longrightarrow>
         Policies (Rules (createRbacRule sanitize listenerName permissions))
           (GetName (Meta permission)) = Some (createPolicy permission))"
    using policies_loop_member[of permission permissions Map.empty]
      policies_loop_distinct[of permissions permission Map.empty]
    by (simp add: createRbacRule_def)
  from one len nth keyed show ?thesis by blast
qed

theorem createPolicy_one_principal_per_source_witness:
  "Policies (Rules (createRbacRule SanitizeMetric ''inbound:127.0.0.1:21011'' [exPermission]))
     ''allow-web'' =
   Some \<lparr>Permissions = [Permission_Any True],
         Principals = [Principal_Authenticated (StringMatcher_Exact ''spiffe://m1/web''),
                       Principal_Any True]\<rparr>"
proof -
  have mem: "exPermission \<in> set [exPermission]" by simp
  have dist: "distinct (map (\<lambda>p. GetName (Meta p)) [exPermission])" by simp
  have name: "GetName (Meta exPermission) = ''allow-web''" by (simp add: exPermission_def)
  have pol: "createPolicy exPermission =
     \<lparr>Permissions = [Permission_Any True],
      Principals = [Principal_Authenticated (StringMatcher_Exact ''spiffe://m1/web''),
                    Principal_Any True]\<rparr>"
    by (simp add: createPolicy_def exPermission_def createPrincipal_def Match_def MatchAllTag_def)
  from createPolicy_one_principal_per_source
         [of exPermission "[exPermission]" SanitizeMetric "''inbound:127.0.0.1:21011''"]
       mem dist
  have "Policies (Rules (createRbacRule SanitizeMetric ''inbound:127.0.0.1:21011'' [exPermission]))
          (GetName (Meta exPermission)) = Some (createPolicy exPermission)"
    by blast
  then show ?thesis by (simp only: name pol)
qed

subsection \<open>Filter precedence\<close>

text \<open>
  Claim C2. When the rule can be marshalled, \<^verbatim>\<open>Configure\<close> returns no error and puts the
  generated RBAC filter in front of every filter chain of the listener; the filters that
  were on the chain follow it unchanged and in their order, so a chain \<open>[F1, F2]\<close> becomes
  \<open>[RBAC, F1, F2]\<close>.
\<close>

theorem Configure_prepends_filter:
  assumes "MarshalAny (createRbacRule sanitize (Listener_Name l) permissions) = Inr a"
  shows "Configure sanitize MarshalAny permissions l =
      (None, l\<lparr>FilterChains :=
         map (\<lambda>chain. chain\<lparr>Filters :=
                \<lparr>Filter_Name = RoleBasedAccessControl,
                 Filter_ConfigType = Filter_TypedConfig a\<rparr> # Filters chain\<rparr>)
             (FilterChains l)\<rparr>) \<and>
    length (FilterChains (snd (Configure sanitize MarshalAny permissions l))) =
      length (FilterChains l) \<and>
    (\<forall>i < length (FilterChains l).
       Filters (FilterChains (snd (Configure sanitize MarshalAny permissions l)) ! i) =
         \<lparr>Filter_Name = RoleBasedAccessControl, Filter_ConfigType = Filter_TypedConfig a\<rparr>
           # Filters (FilterChains l ! i))"
  using Configure_ok[where MarshalAny=MarshalAny and sanitize=sanitize and l=l
      and permissions=permissions and a=a, OF assms]
  by simp

theorem Configure_prepends_filter_witness:
  "fst (Configure SanitizeMetric exMarshalAny [exPermission] exListener) = None \<and>
   map (map Filter_Name \<circ> Filters)
     (FilterChains (snd (Configure SanitizeMetric exMarshalAny [exPermission] exListener))) =
   [[''envoy.filters.network.rbac'', ''F1'', ''F2'']]"
proof -
  obtain a where h: "exMarshalAny
      (createRbacRule SanitizeMetric (Listener_Name exListener) [exPermission]) = Inr a"
    by (simp add: exMarshalAny_def)
  show ?thesis
    using Configure_prepends_filter[where MarshalAny=exMarshalAny and sanitize=SanitizeMetric
        and l=exListener and permissions="[exPermission]" and a=a, OF h]
    by (simp add: exListener_def RoleBasedAccessControl_def)
qed

subsection \<open>Default deny\<close>

text \<open>
  Claim C7. With an empty permission list the rule still has action ALLOW and no policy, and
  \<^verbatim>\<open>Configure\<close> still puts a filter carrying that rule in front of every filter chain:
  whenever it returns no error, every chain of the listener starts with the RBAC filter. The
  only way out without the filter is the error of \<^verbatim>\<open>MarshalAny\<close>, which \<^verbatim>\<open>Configure\<close>
  returns.
\<close>

theorem Configure_empty_permissions:
  "Action (Rules (createRbacRule sanitize listenerName [])) = RBAC_ALLOW \<and>
   Policies (Rules (createRbacRule sanitize listenerName [])) = Map.empty \<and>
   (MarshalAny (createRbacRule sanitize (Listener_Name l) []) = Inr a \<longrightarrow>
      Configure sanitize MarshalAny [] l =
        (None, l\<lparr>FilterChains :=
           map (\<lambda>chain. chain\<lparr>Filters :=
                  \<lparr>Filter_Name = RoleBasedAccessControl,
                   Filter_ConfigType = Filter_TypedConfig a\<rparr> # Filters chain\<rparr>)
               (FilterChains l)\<rparr>)) \<and>
   (fst (Configure sanitize MarshalAny [] l) = None \<longrightarrow>
      (\<forall>chain\<in>set (FilterChains (snd (Configure sanitize MarshalAny [] l))).
         \<exists>b rest. Filters chain =
           \<lparr>Filter_Name = RoleBasedAccessControl, Filter_ConfigType = Filter_TypedConfig b\<rparr>
             # rest))"
proof -
  have rule: "Action (Rules (createRbacRule sanitize listenerName [])) = RBAC_ALLOW \<and>
      Policies (Rules (createRbacRule sanitize listenerName [])) = Map.empty"
    by (simp add: createRbacRule_def)
  have ok: "MarshalAny (createRbacRule sanitize (Listener_Name l) []) = Inr a \<longrightarrow>
      Configure sanitize MarshalAny [] l =
        (None, l\<lparr>FilterChains :=
           map (\<lambda>chain. chain\<lparr>Filters :=
                  \<lparr>Filter_Name = RoleBasedAccessControl,
                   Filter_ConfigType = Filter_TypedConfig a\<rparr> # Filters chain\<rparr>)
               (FilterChains l)\<rparr>)"
    using Configure_ok[where MarshalAny=MarshalAny and sanitize=sanitize and l=l
        and permissions="[]" and a=a]
    by blast
  have first: "fst (Configure sanitize MarshalAny [] l) = None \<longrightarrow>
      (\<forall>chain\<in>set (FilterChains (snd (Configure sanitize MarshalAny [] l))).
         \<exists>b rest. Filters chain =
           \<lparr>Filter_Name = RoleBasedAccessControl, Filter_ConfigType = Filter_TypedConfig b\<rparr>
             # rest)"
    using Configure_success_first[where MarshalAny=MarshalAny and sanitize=sanitize and l=l
        and permissions="[]"]
    by blast
  from rule ok first show ?thesis by blast
qed

theorem Configure_empty_permissions_witness:
  "dom (Policies (Rules (createRbacRule SanitizeMetric ''inbound:127.0.0.1:21011'' []))) = {} \<and>
   fst (Configure SanitizeMetric exMarshalAny [] exListener) = None \<and>
   map (map Filter_Name \<circ> Filters)
     (FilterChains (snd (Configure SanitizeMetric exMarshalAny [] exListener))) =
   [[''envoy.filters.network.rbac'', ''F1'', ''F2'']]"
proof -
  obtain a where h: "exMarshalAny
      (createRbacRule SanitizeMetric (Listener_Name exListener) []) = Inr a"
    by (simp add: exMarshalAny_def)
  from Configure_empty_permissions[where MarshalAny=exMarshalAny and sanitize=SanitizeMetric
        and l=exListener and a=a and listenerName="''inbound:127.0.0.1:21011''"] h
  have "Policies (Rules (createRbacRule SanitizeMetric ''inbound:127.0.0.1:21011'' [])) = Map.empty"
    and "Configure SanitizeMetric exMarshalAny [] exListener =
        (None, exListener\<lparr>FilterChains :=
           map (\<lambda>chain. chain\<lparr>Filters :=
                  \<lparr>Filter_Name = RoleBasedAccessControl,
                   Filter_ConfigType = Filter_TypedConfig a\<rparr> # Filters chain\<rparr>)
               (FilterChains exListener)\<rparr>)"
    by blast+
  then show ?thesis
    by (simp add: exListener_def RoleBasedAccessControl_def)
qed

subsection \<open>Stat prefix\<close>

text \<open>
  The prefix is one character longer than the sanitized name, whatever the sanitizer.
\<close>

lemma StatPrefix_length:
  "length (StatPrefix (createRbacRule sanitize listenerName permissions)) =
     Suc (length (sanitize listenerName))"
  by (simp add: createRbacRule_def)

text \<open>
  Claim C5 as stated. The stat prefix claimed for the listener \<^verbatim>\<open>inbound:127.0.0.1:21011\<close> is
  \<^verbatim>\<open>inbound_127_0_0_1_21011rbac.\<close>; \<^verbatim>\<open>createRbacRule\<close> appends a dot and nothing else to the
  sanitized name, so the prefix has no \<^verbatim>\<open>rbac\<close> in it.
\<close>

theorem StatPrefix_counterexample:
  "StatPrefix (createRbacRule SanitizeMetric ''inbound:127.0.0.1:21011'' [allowAll]) \<noteq>
     ''inbound_127_0_0_1_21011rbac.''"
  by (simp add: createRbacRule_def SanitizeMetric_def)

text \<open>
  Claim C5, amended. The stat prefix is the sanitized listener name followed by a single
  dot, the separator in front of the \<^verbatim>\<open>rbac.\<close> that Envoy appends itself (the comment in
  \<^verbatim>\<open>createRbacRule\<close>); for the listener \<^verbatim>\<open>inbound:127.0.0.1:21011\<close>, with colons and dots
  sanitized to underscores, it is \<^verbatim>\<open>inbound_127_0_0_1_21011.\<close> whatever the permissions.
\<close>

theorem StatPrefix_sanitized_dot:
  "StatPrefix (createRbacRule sanitize listenerName permissions) = sanitize listenerName @ ''.'' \<and>
   StatPrefix (createRbacRule SanitizeMetric ''inbound:127.0.0.1:21011'' permissions) =
     ''inbound_127_0_0_1_21011.''"
  by (simp add: createRbacRule_def SanitizeMetric_def)

section \<open>Properties of the HTTP layer\<close>

lemmas ex_defs = exJsonpb_def exFactory_def exWs_def exBody_def exRequest_def exStored_def
lemmas mem_defs = memStore_def memCreate_def memGet_def memUpdate_def memDelete_def memList_def
  has_key_def
lemmas handler_defs = createOrUpdateResource_def ReadEntity_def UnmarshalJSON_def
  validateResourceRequest_def createResource_def updateResource_def SetSpec_def
  PathParameter_def lookup_def namespace_def writeError_def Let_def

subsection \<open>Listing and the mesh of the URL\<close>

text \<open>
  Claim C1 as stated. A resource put under mesh \<^verbatim>\<open>B\<close> is stored under the namespace \<^verbatim>\<open>default\<close>, and a
  list request for mesh \<^verbatim>\<open>A\<close> returns it, labelled with mesh \<^verbatim>\<open>A\<close>: the handlers never
  pass the mesh of the URL to the store.
\<close>

theorem listResources_mesh_counterexample:
  "createOrUpdateResource exJsonpb (exWs ''TrafficPermission'')
       (exRequest ''B'' ''tp1'' (Some (exBody ''B''))) [] =
     ([exStored ''B''], [WriteHeader 201]) \<and>
   listResources (\<lambda>e. None) (exWs ''TrafficPermission'') (exRequest ''A'' [] None)
       [exStored ''B''] =
     [WriteAsJson (Entity_List
        [\<lparr>Type = ''TrafficPermission'', Name = ''tp1'', Mesh = ''A'',
          ReqResp_Spec = \<lparr>Shape = ''TrafficPermission'', Content = exBody ''B''\<rparr>\<rparr>])]"
  by (simp add: ex_defs mem_defs handler_defs listResources_def toReqResp_def)

text \<open>
  Claim C1, amended. \<^verbatim>\<open>listResources\<close> asks the store for the resources of the fixed
  namespace \<^verbatim>\<open>default\<close>, whatever mesh the URL names, and returns every one of them, each
  labelled with the mesh of the URL.
\<close>

theorem listResources_default_namespace:
  assumes "ListByNamespace (resourceStore r) st (ResourceListFactory r) ''default'' = Inr filled"
    and "jsonErr (Entity_List (map (\<lambda>item.
            \<lparr>Type = GetType item, Name = GetName (GetMeta item),
             Mesh = PathParameter request ''mesh'', ReqResp_Spec = GetSpec item\<rparr>)
          (GetItems filled))) = None"
  shows "listResources jsonErr r request st =
     [WriteAsJson (Entity_List (map (\<lambda>item.
            \<lparr>Type = GetType item, Name = GetName (GetMeta item),
             Mesh = PathParameter request ''mesh'', ReqResp_Spec = GetSpec item\<rparr>)
          (GetItems filled)))]"
  using assms by (simp add: listResources_def toReqResp_def namespace_def Let_def cong: map_cong)

theorem listResources_default_namespace_witness:
  "listResources (\<lambda>e. None) (exWs ''TrafficPermission'') (exRequest ''A'' [] None)
       [exStored ''B''] =
     [WriteAsJson (Entity_List
        [\<lparr>Type = ''TrafficPermission'', Name = ''tp1'', Mesh = ''A'',
          ReqResp_Spec = \<lparr>Shape = ''TrafficPermission'', Content = exBody ''B''\<rparr>\<rparr>])]"
proof -
  have h1: "ListByNamespace (resourceStore (exWs ''TrafficPermission'')) [exStored ''B'']
      (ResourceListFactory (exWs ''TrafficPermission'')) ''default'' =
      Inr \<lparr>GetItemType = ''TrafficPermission'', GetItems = [exStored ''B'']\<rparr>"
    by (simp add: ex_defs mem_defs)
  have h2: "(\<lambda>e. None) (Entity_List (map (\<lambda>item.
            \<lparr>Type = GetType item, Name = GetName (GetMeta item),
             Mesh = PathParameter (exRequest ''A'' [] None) ''mesh'', ReqResp_Spec = GetSpec item\<rparr>)
          (GetItems \<lparr>GetItemType = ''TrafficPermission'', GetItems = [exStored ''B'']\<rparr>))) = None"
    by simp
  show ?thesis
    using listResources_default_namespace[where jsonErr="\<lambda>e. None", OF h1 h2]
    by (simp add: ex_defs PathParameter_def)
qed

subsection \<open>NotFound on delete\<close>

text \<open>
  Claim C6. Deleting an absent resource: the store fails with NotFound and
  \<^verbatim>\<open>deleteResource\<close> answers 500, where the claim has 404; \<^verbatim>\<open>findResource\<close> answers 404
  for the same request on the same store.
\<close>

theorem deleteResource_absent_500:
  "deleteResource (exWs ''TrafficPermission'') (exRequest ''default'' ''absent'' None) [] =
     ([], [WriteErrorString 500 ''Could not delete a resource'']) \<and>
   status (snd (deleteResource (exWs ''TrafficPermission'')
                  (exRequest ''default'' ''absent'' None) [])) = 500 \<and>
   findResource (\<lambda>e. None) (exWs ''TrafficPermission'') (exRequest ''default'' ''absent'' None) [] =
     [WriteErrorString 404 []]"
  by (simp add: ex_defs mem_defs deleteResource_def findResource_def PathParameter_def
      namespace_def writeError_def)

subsection \<open>The discarded error of SetSpec\<close>



subsection \<open>Decoding the envelope\<close>

lemma unmarshal_members_error:
  "fst (unmarshal_members members vals err) = None \<longleftrightarrow>
     err = None \<and> (\<forall>(k, v)\<in>set members. v = JNull \<or> (\<exists>s. v = JString s))"
proof (induction members arbitrary: vals err)
  case Nil
  then show ?case by simp
next
  case (Cons x xs)
  obtain k v where x: "x = (k, v)" by (cases x)
  show ?case
    by (cases v; cases err) (simp_all add: x Cons.IH)
qed

lemma unmarshal_members_absent:
  "k \<notin> fst ` set members \<Longrightarrow> snd (unmarshal_members members vals err) k = vals k"
proof (induction members arbitrary: vals err)
  case Nil
  then show ?case by simp
next
  case (Cons x xs)
  obtain k' v where x: "x = (k', v)" by (cases x)
  from Cons.prems have ne: "k \<noteq> k'" and rest: "k \<notin> fst ` set xs" by (auto simp: x)
  show ?case
    using ne by (cases v) (simp_all add: x Cons.IH[OF rest])
qed

lemma json_Unmarshal_object_error:
  "fst (json_Unmarshal (JObject members)) = None \<longleftrightarrow>
     (\<forall>(k, v)\<in>set members. v = JNull \<or> (\<exists>s. v = JString s))"
  by (simp add: unmarshal_members_error)

lemma json_Unmarshal_object_absent:
  "k \<notin> fst ` set members \<Longrightarrow> lookup (snd (json_Unmarshal (JObject members))) k = []"
  by (simp add: lookup_def unmarshal_members_absent)

text \<open>
  Claim C9 as stated. A body whose only member that is not a string is a JSON null decodes
  without error:
  \<^verbatim>\<open>json.Unmarshal\<close> skips a null for a string element.
\<close>

theorem UnmarshalJSON_null_counterexample:
  "UnmarshalJSON exJsonpb
     (JObject [(''type'', JString ''TrafficPermission''), (''name'', JString ''tp1''),
               (''mesh'', JString ''default''), (''sources'', JNull)])
     \<lparr>Type = [], Name = [], Mesh = [], ReqResp_Spec = GetSpec (exFactory ''TrafficPermission'')\<rparr> =
   (None,
    \<lparr>Type = ''TrafficPermission'', Name = ''tp1'', Mesh = ''default'',
     ReqResp_Spec = \<lparr>Shape = ''TrafficPermission'',
       Content = JObject [(''type'', JString ''TrafficPermission''), (''name'', JString ''tp1''),
               (''mesh'', JString ''default''), (''sources'', JNull)]\<rparr>\<rparr>)"
  by (simp add: UnmarshalJSON_def ex_defs lookup_def)

text \<open>
  Claim C9, amended. \<^verbatim>\<open>UnmarshalJSON\<close> returns an error for every JSON object that has a
  top-level member whose value is neither a string nor null (a number, a boolean, an array
  or an object), whether or not the spec payload was decoded. When the payload is decoded
  and every member is a string or null, it returns no error, and an envelope field that is
  absent from the body is left as the empty string.
\<close>

theorem UnmarshalJSON_string_map:
  "((k, v) \<in> set members \<and> v \<noteq> JNull \<and> (\<forall>s. v \<noteq> JString s) \<longrightarrow>
      fst (UnmarshalJSON jsonpb (JObject members) r) \<noteq> None) \<and>
   (fst (jsonpb (JObject members) (ReqResp_Spec r)) = None \<and>
    (\<forall>(k, v)\<in>set members. v = JNull \<or> (\<exists>s. v = JString s)) \<longrightarrow>
      fst (UnmarshalJSON jsonpb (JObject members) r) = None \<and>
      (''name'' \<notin> fst ` set members \<longrightarrow> Name (snd (UnmarshalJSON jsonpb (JObject members) r)) = []) \<and>
      (''type'' \<notin> fst ` set members \<longrightarrow> Type (snd (UnmarshalJSON jsonpb (JObject members) r)) = []) \<and>
      (''mesh'' \<notin> fst ` set members \<longrightarrow> Mesh (snd (UnmarshalJSON jsonpb (JObject members) r)) = []))"
proof -
  obtain e1 spec where p: "jsonpb (JObject members) (ReqResp_Spec r) = (e1, spec)"
    by (cases "jsonpb (JObject members) (ReqResp_Spec r)")
  obtain e2 vals where j: "json_Unmarshal (JObject members) = (e2, vals)"
    by (cases "json_Unmarshal (JObject members)")
  have bad: "(k, v) \<in> set members \<and> v \<noteq> JNull \<and> (\<forall>s. v \<noteq> JString s) \<longrightarrow> e2 \<noteq> None"
    using json_Unmarshal_object_error[of members] j by auto
  have good: "(\<forall>(k, v)\<in>set members. v = JNull \<or> (\<exists>s. v = JString s)) \<longrightarrow> e2 = None"
    using json_Unmarshal_object_error[of members] j by simp
  have absent: "\<And>key. key \<notin> fst ` set members \<Longrightarrow> lookup vals key = []"
    using json_Unmarshal_object_absent[of _ members] j by simp
  have first: "(k, v) \<in> set members \<and> v \<noteq> JNull \<and> (\<forall>s. v \<noteq> JString s) \<longrightarrow>
      fst (UnmarshalJSON jsonpb (JObject members) r) \<noteq> None"
    using bad by (cases e1; cases e2) (simp_all add: UnmarshalJSON_def p j del: json_Unmarshal.simps)
  have second: "fst (jsonpb (JObject members) (ReqResp_Spec r)) = None \<and>
    (\<forall>(k, v)\<in>set members. v = JNull \<or> (\<exists>s. v = JString s)) \<longrightarrow>
      fst (UnmarshalJSON jsonpb (JObject members) r) = None \<and>
      (''name'' \<notin> fst ` set members \<longrightarrow> Name (snd (UnmarshalJSON jsonpb (JObject members) r)) = []) \<and>
      (''type'' \<notin> fst ` set members \<longrightarrow> Type (snd (UnmarshalJSON jsonpb (JObject members) r)) = []) \<and>
      (''mesh'' \<notin> fst ` set members \<longrightarrow> Mesh (snd (UnmarshalJSON jsonpb (JObject members) r)) = [])"
    using good absent
    by (cases e1; cases e2) (simp_all add: UnmarshalJSON_def p j del: json_Unmarshal.simps)
  from first second show ?thesis by (rule conjI)
qed

theorem UnmarshalJSON_string_map_witness:
  "fst (UnmarshalJSON exJsonpb
          (JObject [(''name'', JString ''tp1''), (''sources'', JArray [])])
          \<lparr>Type = [], Name = [], Mesh = [],
           ReqResp_Spec = GetSpec (exFactory ''TrafficPermission'')\<rparr>) \<noteq> None \<and>
   fst (UnmarshalJSON exJsonpb (JObject [(''name'', JString ''tp1'')])
          \<lparr>Type = [], Name = [], Mesh = [],
           ReqResp_Spec = GetSpec (exFactory ''TrafficPermission'')\<rparr>) = None \<and>
   Mesh (snd (UnmarshalJSON exJsonpb (JObject [(''name'', JString ''tp1'')])
          \<lparr>Type = [], Name = [], Mesh = [],
           ReqResp_Spec = GetSpec (exFactory ''TrafficPermission'')\<rparr>)) = []"
proof -
  let ?r = "\<lparr>Type = [], Name = [], Mesh = [],
           ReqResp_Spec = GetSpec (exFactory ''TrafficPermission'')\<rparr>"
  have a: "(''sources'', JArray []) \<in> set [(''name'', JString ''tp1''), (''sources'', JArray [])] \<and>
      JArray [] \<noteq> JNull \<and> (\<forall>s. JArray [] \<noteq> JString s)"
    by simp
  have b: "fst (exJsonpb (JObject [(''name'', JString ''tp1'')]) (ReqResp_Spec ?r)) = None \<and>
      (\<forall>(k, v)\<in>set [(''name'', JString ''tp1'')]. v = JNull \<or> (\<exists>s. v = JString s))"
    by (simp add: exJsonpb_def)
  have c: "''mesh'' \<notin> fst ` set [(''name'', JString ''tp1'')]" by simp
  from UnmarshalJSON_string_map[where k="''sources''" and v="JArray []" and jsonpb=exJsonpb
      and members="[(''name'', JString ''tp1''), (''sources'', JArray [])]" and r="?r"] a
  have 1: "fst (UnmarshalJSON exJsonpb
          (JObject [(''name'', JString ''tp1''), (''sources'', JArray [])]) ?r) \<noteq> None"
    by blast
  from UnmarshalJSON_string_map[where jsonpb=exJsonpb
      and members="[(''name'', JString ''tp1'')]" and r="?r"] b c
  have 2: "fst (UnmarshalJSON exJsonpb (JObject [(''name'', JString ''tp1'')]) ?r) = None \<and>
     Mesh (snd (UnmarshalJSON exJsonpb (JObject [(''name'', JString ''tp1'')]) ?r)) = []"
    by blast
  from 1 2 show ?thesis by blast
qed

subsection \<open>A failed read does not stop the handler\<close>

lemma ReadEntity_failed_envelope:
  "fst (ReadEntity jsonpb request entity) = Some e \<Longrightarrow>
   Name (snd (ReadEntity jsonpb request entity)) = Name entity \<and>
   Type (snd (ReadEntity jsonpb request entity)) = Type entity \<and>
   Mesh (snd (ReadEntity jsonpb request entity)) = Mesh entity"
  by (auto simp: ReadEntity_def UnmarshalJSON_def split: option.splits prod.splits)

text \<open>
  Claim C8. When \<^verbatim>\<open>ReadEntity\<close> fails, \<^verbatim>\<open>createOrUpdateResource\<close> writes the 400 and does not
  return. It goes on to the envelope validation of the request as the failed read left it,
  with name, type and mesh still empty: when the validation fails, its 400 is written after
  the first one, which is always so when the URL names a resource; the validation passes
  exactly when the name and mesh of the URL and the type of the resource are empty. When it
  passes, the handler calls Get on the store and then, as Get answers, Create or Update on
  the store with the spec of the request, and the store's new state and the 201, 200 or 500
  follow the first 400.
\<close>

theorem createOrUpdateResource_continues_after_read_error:
  assumes "ReadEntity jsonpb request
      \<lparr>Type = [], Name = [], Mesh = [], ReqResp_Spec = GetSpec (ResourceFactory r)\<rparr> =
      (Some e, resourceRes)"
  shows "(\<exists>ws. snd (createOrUpdateResource jsonpb r request st) =
            WriteErrorString 400 ''Could not process the resource'' # ws) \<and>
    (\<forall>msg. validateResourceRequest r request resourceRes = Some msg \<longrightarrow>
       createOrUpdateResource jsonpb r request st =
         (st, [WriteErrorString 400 ''Could not process the resource'',
               WriteErrorString 400 msg])) \<and>
    (PathParameter request ''name'' \<noteq> [] \<longrightarrow>
       createOrUpdateResource jsonpb r request st =
         (st, [WriteErrorString 400 ''Could not process the resource'',
               WriteErrorString 400 ''Name from the URL has to be the same as in body''])) \<and>
    (validateResourceRequest r request resourceRes = None \<longleftrightarrow>
       PathParameter request ''name'' = [] \<and> GetType (ResourceFactory r) = [] \<and>
       PathParameter request ''mesh'' = []) \<and>
    (validateResourceRequest r request resourceRes = None \<longrightarrow>
       createOrUpdateResource jsonpb r request st =
         (case Get (resourceStore r) st (ResourceFactory r) namespace
                 (PathParameter request ''name'') of
            Inl err \<Rightarrow>
              if err = ErrorResourceNotFound (GetType (ResourceFactory r)) namespace
                         (PathParameter request ''name'')
              then (case Create (resourceStore r) st
                           (case SetSpec (ResourceFactory r) (ReqResp_Spec resourceRes) of
                              Inl serr \<Rightarrow> ResourceFactory r
                            | Inr res \<Rightarrow> res)
                           namespace (PathParameter request ''name'') of
                      Inl cerr \<Rightarrow>
                        (st, [WriteErrorString 400 ''Could not process the resource'',
                              WriteErrorString 500 ''Could not create a resource''])
                    | Inr st' \<Rightarrow>
                        (st', [WriteErrorString 400 ''Could not process the resource'',
                               WriteHeader 201]))
              else (st, [WriteErrorString 400 ''Could not process the resource'',
                         WriteErrorString 500 ''Could not create a resource''])
          | Inr found \<Rightarrow>
              (case Update (resourceStore r) st
                      (case SetSpec found (ReqResp_Spec resourceRes) of
                         Inl serr \<Rightarrow> found
                       | Inr res \<Rightarrow> res) of
                 Inl uerr \<Rightarrow>
                   (st, [WriteErrorString 400 ''Could not process the resource'',
                         WriteErrorString 500 ''Could not update a resource''])
               | Inr st' \<Rightarrow>
                   (st', [WriteErrorString 400 ''Could not process the resource'',
                          WriteHeader 200]))))"
proof -
  let ?init = "\<lparr>Type = [], Name = [], Mesh = [], ReqResp_Spec = GetSpec (ResourceFactory r)\<rparr>"
  from ReadEntity_failed_envelope[of jsonpb request ?init e] assms
  have env: "Name resourceRes = []" "Type resourceRes = []" "Mesh resourceRes = []"
    by simp_all
  have first: "\<exists>ws. snd (createOrUpdateResource jsonpb r request st) =
            WriteErrorString 400 ''Could not process the resource'' # ws"
    using assms
    by (auto simp: createOrUpdateResource_def writeError_def Let_def
        split: option.splits sum.splits prod.splits)
  have inval: "\<forall>msg. validateResourceRequest r request resourceRes = Some msg \<longrightarrow>
       createOrUpdateResource jsonpb r request st =
         (st, [WriteErrorString 400 ''Could not process the resource'',
               WriteErrorString 400 msg])"
    using assms by (simp add: createOrUpdateResource_def writeError_def Let_def)
  have named: "PathParameter request ''name'' \<noteq> [] \<longrightarrow>
       validateResourceRequest r request resourceRes =
         Some ''Name from the URL has to be the same as in body''"
    by (simp add: validateResourceRequest_def env Let_def)
  have iff: "validateResourceRequest r request resourceRes = None \<longleftrightarrow>
       PathParameter request ''name'' = [] \<and> GetType (ResourceFactory r) = [] \<and>
       PathParameter request ''mesh'' = []"
    by (simp add: validateResourceRequest_def env Let_def)
  have cont: "validateResourceRequest r request resourceRes = None \<longrightarrow>
       createOrUpdateResource jsonpb r request st =
         (case Get (resourceStore r) st (ResourceFactory r) namespace
                 (PathParameter request ''name'') of
            Inl err \<Rightarrow>
              if err = ErrorResourceNotFound (GetType (ResourceFactory r)) namespace
                         (PathParameter request ''name'')
              then (case Create (resourceStore r) st
                           (case SetSpec (ResourceFactory r) (ReqResp_Spec resourceRes) of
                              Inl serr \<Rightarrow> ResourceFactory r
                            | Inr res \<Rightarrow> res)
                           namespace (PathParameter request ''name'') of
                      Inl cerr \<Rightarrow>
                        (st, [WriteErrorString 400 ''Could not process the resource'',
                              WriteErrorString 500 ''Could not create a resource''])
                    | Inr st' \<Rightarrow>
                        (st', [WriteErrorString 400 ''Could not process the resource'',
                               WriteHeader 201]))
              else (st, [WriteErrorString 400 ''Could not process the resource'',
                         WriteErrorString 500 ''Could not create a resource''])
          | Inr found \<Rightarrow>
              (case Update (resourceStore r) st
                      (case SetSpec found (ReqResp_Spec resourceRes) of
                         Inl serr \<Rightarrow> found
                       | Inr res \<Rightarrow> res) of
                 Inl uerr \<Rightarrow>
                   (st, [WriteErrorString 400 ''Could not process the resource'',
                         WriteErrorString 500 ''Could not update a resource''])
               | Inr st' \<Rightarrow>
                   (st', [WriteErrorString 400 ''Could not process the resource'',
                          WriteHeader 200])))"
    using assms
    by (simp add: createOrUpdateResource_def createResource_def updateResource_def
        writeError_def Let_def split: sum.splits)
  from first inval named iff cont show ?thesis by blast
qed

theorem createOrUpdateResource_continues_after_read_error_witness:
  "createOrUpdateResource exJsonpb (exWs ''TrafficPermission'')
       (exRequest ''default'' ''tp1'' None) [] =
     ([], [WriteErrorString 400 ''Could not process the resource'',
           WriteErrorString 400 ''Name from the URL has to be the same as in body'']) \<and>
   createOrUpdateResource exJsonpb (exWs []) (exRequest [] [] None) [] =
     ([exUntyped],
      [WriteErrorString 400 ''Could not process the resource'', WriteHeader 201]) \<and>
   createOrUpdateResource exJsonpb (exWs []) (exRequest [] [] None) [exUntyped] =
     ([exUntyped\<lparr>GetMeta := (GetMeta exUntyped)\<lparr>GetVersion := 2\<rparr>\<rparr>],
      [WriteErrorString 400 ''Could not process the resource'', WriteHeader 200])"
proof -
  let ?r = "exWs []"
  let ?req = "exRequest [] [] None"
  let ?rr = "\<lparr>Type = [], Name = [], Mesh = [], ReqResp_Spec = GetSpec (ResourceFactory ?r)\<rparr>"
  let ?t = "exWs ''TrafficPermission''"
  let ?treq = "exRequest ''default'' ''tp1'' None"
  let ?trr = "\<lparr>Type = [], Name = [], Mesh = [], ReqResp_Spec = GetSpec (ResourceFactory ?t)\<rparr>"
  have ht: "ReadEntity exJsonpb ?treq ?trr = (Some SyntaxError, ?trr)"
    by (simp add: ReadEntity_def ex_defs)
  have nt: "PathParameter ?treq ''name'' \<noteq> []"
    by (simp add: PathParameter_def ex_defs)
  from createOrUpdateResource_continues_after_read_error[OF ht, of "[]"] nt
  have a: "createOrUpdateResource exJsonpb ?t ?treq [] =
     ([], [WriteErrorString 400 ''Could not process the resource'',
           WriteErrorString 400 ''Name from the URL has to be the same as in body''])"
    by blast
  have h: "ReadEntity exJsonpb ?req ?rr = (Some SyntaxError, ?rr)"
    by (simp add: ReadEntity_def ex_defs)
  have v: "validateResourceRequest ?r ?req ?rr = None"
    by (simp add: validateResourceRequest_def ex_defs PathParameter_def)
  from createOrUpdateResource_continues_after_read_error[OF h, of "[]"] v
  have "createOrUpdateResource exJsonpb ?r ?req [] =
         (case Get (resourceStore ?r) [] (ResourceFactory ?r) namespace
                 (PathParameter ?req ''name'') of
            Inl err \<Rightarrow>
              if err = ErrorResourceNotFound (GetType (ResourceFactory ?r)) namespace
                         (PathParameter ?req ''name'')
              then (case Create (resourceStore ?r) []
                           (case SetSpec (ResourceFactory ?r) (ReqResp_Spec ?rr) of
                              Inl serr \<Rightarrow> ResourceFactory ?r
                            | Inr res \<Rightarrow> res)
                           namespace (PathParameter ?req ''name'') of
                      Inl cerr \<Rightarrow>
                        ([], [WriteErrorString 400 ''Could not process the resource'',
                              WriteErrorString 500 ''Could not create a resource''])
                    | Inr st' \<Rightarrow>
                        (st', [WriteErrorString 400 ''Could not process the resource'',
                               WriteHeader 201]))
              else ([], [WriteErrorString 400 ''Could not process the resource'',
                         WriteErrorString 500 ''Could not create a resource''])
          | Inr found \<Rightarrow>
              (case Update (resourceStore ?r) []
                      (case SetSpec found (ReqResp_Spec ?rr) of
                         Inl serr \<Rightarrow> found
                       | Inr res \<Rightarrow> res) of
                 Inl uerr \<Rightarrow>
                   ([], [WriteErrorString 400 ''Could not process the resource'',
                         WriteErrorString 500 ''Could not update a resource''])
               | Inr st' \<Rightarrow>
                   (st', [WriteErrorString 400 ''Could not process the resource'',
                          WriteHeader 200])))"
    by blast
  then have b: "createOrUpdateResource exJsonpb ?r ?req [] =
     ([exUntyped],
      [WriteErrorString 400 ''Could not process the resource'', WriteHeader 201])"
    by (simp add: ex_defs mem_defs SetSpec_def PathParameter_def namespace_def exUntyped_def
        Let_def)
  from createOrUpdateResource_continues_after_read_error[OF h, of "[exUntyped]"] v
  have "createOrUpdateResource exJsonpb ?r ?req [exUntyped] =
         (case Get (resourceStore ?r) [exUntyped] (ResourceFactory ?r) namespace
                 (PathParameter ?req ''name'') of
            Inl err \<Rightarrow>
              if err = ErrorResourceNotFound (GetType (ResourceFactory ?r)) namespace
                         (PathParameter ?req ''name'')
              then (case Create (resourceStore ?r) [exUntyped]
                           (case SetSpec (ResourceFactory ?r) (ReqResp_Spec ?rr) of
                              Inl serr \<Rightarrow> ResourceFactory ?r
                            | Inr res \<Rightarrow> res)
                           namespace (PathParameter ?req ''name'') of
                      Inl cerr \<Rightarrow>
                        ([exUntyped], [WriteErrorString 400 ''Could not process the resource'',
                              WriteErrorString 500 ''Could not create a resource''])
                    | Inr st' \<Rightarrow>
                        (st', [WriteErrorString 400 ''Could not process the resource'',
                               WriteHeader 201]))
              else ([exUntyped], [WriteErrorString 400 ''Could not process the resource'',
                         WriteErrorString 500 ''Could not create a resource''])
          | Inr found \<Rightarrow>
              (case Update (resourceStore ?r) [exUntyped]
                      (case SetSpec found (ReqResp_Spec ?rr) of
                         Inl serr \<Rightarrow> found
                       | Inr res \<Rightarrow> res) of
                 Inl uerr \<Rightarrow>
                   ([exUntyped], [WriteErrorString 400 ''Could not process the resource'',
                         WriteErrorString 500 ''Could not update a resource''])
               | Inr st' \<Rightarrow>
                   (st', [WriteErrorString 400 ''Could not process the resource'',
                          WriteHeader 200])))"
    by blast
  then have c: "createOrUpdateResource exJsonpb ?r ?req [exUntyped] =
     ([exUntyped\<lparr>GetMeta := (GetMeta exUntyped)\<lparr>GetVersion := 2\<rparr>\<rparr>],
      [WriteErrorString 400 ''Could not process the resource'', WriteHeader 200])"
    by (simp add: ex_defs mem_defs SetSpec_def PathParameter_def namespace_def exUntyped_def
        Let_def)
  from a b c show ?thesis by blast
qed

end
